theory Spec2Isabelle
  imports Complex_Main
begin

section \<open>Values\<close>

text \<open>
  The scanner works on pandas/numpy float64 columns. A float is modelled by \<open>fl\<close>: a
  finite value (a rational), the two infinities, or NaN. The elementwise arithmetic below
  follows the IEEE 754 rules for the special values, which numpy applies without raising
  (a division by zero yields an infinity or NaN), and is exact on finite values; zero is
  unsigned. A Python list cell that may hold \<open>None\<close> is an \<open>fl option\<close>.
\<close>

datatype fl = NaN | Fin rat | PInf | NInf

fun fl_neg :: "fl \<Rightarrow> fl" where
  "fl_neg NaN = NaN"
| "fl_neg (Fin a) = Fin (- a)"
| "fl_neg PInf = NInf"
| "fl_neg NInf = PInf"

fun fl_add :: "fl \<Rightarrow> fl \<Rightarrow> fl" where
  "fl_add NaN _ = NaN"
| "fl_add _ NaN = NaN"
| "fl_add (Fin a) (Fin b) = Fin (a + b)"
| "fl_add PInf NInf = NaN"
| "fl_add NInf PInf = NaN"
| "fl_add PInf _ = PInf"
| "fl_add _ PInf = PInf"
| "fl_add NInf _ = NInf"
| "fl_add _ NInf = NInf"

definition fl_sub :: "fl \<Rightarrow> fl \<Rightarrow> fl" where
  "fl_sub a b = fl_add a (fl_neg b)"

fun fl_mul :: "fl \<Rightarrow> fl \<Rightarrow> fl" where
  "fl_mul NaN _ = NaN"
| "fl_mul _ NaN = NaN"
| "fl_mul (Fin a) (Fin b) = Fin (a * b)"
| "fl_mul (Fin a) PInf = (if a = 0 then NaN else if 0 < a then PInf else NInf)"
| "fl_mul (Fin a) NInf = (if a = 0 then NaN else if 0 < a then NInf else PInf)"
| "fl_mul PInf (Fin b) = (if b = 0 then NaN else if 0 < b then PInf else NInf)"
| "fl_mul NInf (Fin b) = (if b = 0 then NaN else if 0 < b then NInf else PInf)"
| "fl_mul PInf PInf = PInf"
| "fl_mul PInf NInf = NInf"
| "fl_mul NInf PInf = NInf"
| "fl_mul NInf NInf = PInf"

fun fl_div :: "fl \<Rightarrow> fl \<Rightarrow> fl" where
  "fl_div NaN _ = NaN"
| "fl_div _ NaN = NaN"
| "fl_div (Fin a) (Fin b) =
     (if b = 0 then (if a = 0 then NaN else if 0 < a then PInf else NInf)
      else Fin (a / b))"
| "fl_div (Fin a) PInf = Fin 0"
| "fl_div (Fin a) NInf = Fin 0"
| "fl_div PInf (Fin b) = (if b < 0 then NInf else PInf)"
| "fl_div NInf (Fin b) = (if b < 0 then PInf else NInf)"
| "fl_div PInf PInf = NaN"
| "fl_div PInf NInf = NaN"
| "fl_div NInf PInf = NaN"
| "fl_div NInf NInf = NaN"

text \<open>\<open>a > b\<close> on floats: every comparison with NaN is false.\<close>

fun fl_gt :: "fl \<Rightarrow> fl \<Rightarrow> bool" where
  "fl_gt NaN _ = False"
| "fl_gt _ NaN = False"
| "fl_gt (Fin a) (Fin b) = (b < a)"
| "fl_gt (Fin a) PInf = False"
| "fl_gt (Fin a) NInf = True"
| "fl_gt PInf PInf = False"
| "fl_gt PInf _ = True"
| "fl_gt NInf _ = False"

definition fl_lt :: "fl \<Rightarrow> fl \<Rightarrow> bool" where
  "fl_lt a b = fl_gt b a"

text \<open>
  An indicator entry is absent when it is the \<open>None\<close> pad or a NaN: the rolling windows
  of pandas mark their leading entries with NaN, and the list cells keep them.
\<close>

fun absent :: "fl option \<Rightarrow> bool" where
  "absent None = True"
| "absent (Some NaN) = True"
| "absent (Some _) = False"

section \<open>Errors and Python indexing\<close>

datatype error = IndexError | TypeError

definition bnd :: "error + 'a \<Rightarrow> ('a \<Rightarrow> error + 'b) \<Rightarrow> error + 'b" where
  "bnd m f = (case m of Inl e \<Rightarrow> Inl e | Inr x \<Rightarrow> f x)"

text \<open>\<open>xs[i]\<close> on a list or array: a negative index counts from the end.\<close>

definition item :: "'a list \<Rightarrow> int \<Rightarrow> error + 'a" where
  "item xs i =
     (if 0 \<le> i \<and> i < int (length xs) then Inr (xs ! nat i)
      else if i < 0 \<and> - int (length xs) \<le> i then Inr (xs ! nat (int (length xs) + i))
      else Inl IndexError)"

text \<open>\<open>c > v\<close> and \<open>c < v\<close> where the cell \<open>v\<close> may be \<open>None\<close>: Python raises TypeError.\<close>

definition gt_cell :: "fl \<Rightarrow> fl option \<Rightarrow> error + bool" where
  "gt_cell c v = (case v of None \<Rightarrow> Inl TypeError | Some x \<Rightarrow> Inr (fl_gt c x))"

definition lt_cell :: "fl \<Rightarrow> fl option \<Rightarrow> error + bool" where
  "lt_cell c v = (case v of None \<Rightarrow> Inl TypeError | Some x \<Rightarrow> Inr (fl_lt c x))"

definition cell_gt :: "fl option \<Rightarrow> fl \<Rightarrow> error + bool" where
  "cell_gt v c = (case v of None \<Rightarrow> Inl TypeError | Some x \<Rightarrow> Inr (fl_gt x c))"

definition mul_cell :: "fl option \<Rightarrow> fl \<Rightarrow> error + fl" where
  "mul_cell v k = (case v of None \<Rightarrow> Inl TypeError | Some x \<Rightarrow> Inr (fl_mul x k))"

text \<open>\<open>X and Y\<close>: \<open>Y\<close> is evaluated only when \<open>X\<close> is true.\<close>

definition and_then :: "error + bool \<Rightarrow> error + bool \<Rightarrow> error + bool" where
  "and_then x y = bnd x (\<lambda>b. if b then y else Inr False)"

section \<open>The price history\<close>

text \<open>
  The DataFrame is a list of rows, oldest first, with the columns the handler guarantees
  after renaming. Prices are finite; the volume is an integer.
\<close>

record bar =
  Open :: rat
  High :: rat
  Low :: rat
  Close :: rat
  Volume :: int

type_synonym frame = "bar list"

section \<open>pandas and numpy operations\<close>

text \<open>
  \<open>pd.Series(xs).rolling(window=w)\<close>: the entry at \<open>i\<close> aggregates the \<open>w\<close> values ending
  at \<open>i\<close> and is NaN while fewer than \<open>w\<close> values are available.
\<close>

definition trailing :: "nat \<Rightarrow> 'a list \<Rightarrow> nat \<Rightarrow> 'a list" where
  "trailing w xs i = take w (drop (Suc i - w) xs)"

text \<open>
  The rolling mean is computed inside pandas, in float64, from running sums; its code is
  not part of the repository. What it returns for a full window is therefore a parameter
  of the model, \<open>lib w xs i\<close>: a binary floating-point number (a mantissa \<open>m\<close> and an
  exponent \<open>e\<close>, standing for \<open>m * 2 ^ e\<close>; the width limits of float64 are not imposed), an
  infinity, or NaN. The result is rounded, so it need not be the exact mean, and a running
  sum that overflows leaves an infinity or NaN. Every theorem below that mentions \<open>lib\<close>
  holds for whatever the library returns.
\<close>

datatype f64 = F64_nan | F64_fin int int | F64_pinf | F64_ninf

fun fl_of :: "f64 \<Rightarrow> fl" where
  "fl_of F64_nan = NaN"
| "fl_of (F64_fin m e) = Fin (if 0 \<le> e then of_int m * 2 ^ nat e else of_int m / 2 ^ nat (- e))"
| "fl_of F64_pinf = PInf"
| "fl_of F64_ninf = NInf"

type_synonym rolling_lib = "nat \<Rightarrow> rat list \<Rightarrow> nat \<Rightarrow> f64"

text \<open>
  One step of the library is fixed: before returning, pandas replaces a negative mean of
  a window without negative values, and a positive mean of a window of negative values,
  by 0.
\<close>

definition calc_mean :: "rat list \<Rightarrow> fl \<Rightarrow> fl" where
  "calc_mean win r =
     (if list_all (\<lambda>x. 0 \<le> x) win \<and> fl_lt r (Fin 0) then Fin 0
      else if list_all (\<lambda>x. x < 0) win \<and> fl_gt r (Fin 0) then Fin 0
      else r)"

definition rolling_mean :: "rolling_lib \<Rightarrow> nat \<Rightarrow> rat list \<Rightarrow> fl list" where
  "rolling_mean lib w xs =
     map (\<lambda>i. if Suc i < w then NaN else calc_mean (trailing w xs i) (fl_of (lib w xs i)))
       [0..<length xs]"

definition rolling_max :: "nat \<Rightarrow> rat list \<Rightarrow> fl list" where
  "rolling_max w xs =
     map (\<lambda>i. if Suc i < w then NaN
              else Fin (fold max (tl (trailing w xs i)) (hd (trailing w xs i))))
       [0..<length xs]"

text \<open>\<open>np.diff\<close>: one element fewer than the input, empty for an empty input.\<close>

definition np_diff :: "rat list \<Rightarrow> rat list" where
  "np_diff xs = map (\<lambda>(a, b). b - a) (zip xs (tl xs))"

section \<open>calculate\_technicals\<close>

text \<open>
  The local \<open>pad\<close>: \<open>[None] * diff + arr\<close>, where a negative \<open>diff\<close> gives no padding.
\<close>

definition pad :: "fl list \<Rightarrow> nat \<Rightarrow> fl option list" where
  "pad arr len = replicate (nat (int len - int (length arr))) None @ map Some arr"

definition closes :: "frame \<Rightarrow> rat list" where
  "closes df = map Close df"

definition highs :: "frame \<Rightarrow> rat list" where
  "highs df = map High df"

definition lows :: "frame \<Rightarrow> rat list" where
  "lows df = map Low df"

definition opens :: "frame \<Rightarrow> rat list" where
  "opens df = map Open df"

definition volumes :: "frame \<Rightarrow> rat list" where
  "volumes df = map (\<lambda>b. of_int (Volume b)) df"

definition sma20 :: "rolling_lib \<Rightarrow> frame \<Rightarrow> fl option list" where
  "sma20 lib df = pad (rolling_mean lib 20 (closes df)) (length (closes df))"

definition sma50 :: "rolling_lib \<Rightarrow> frame \<Rightarrow> fl option list" where
  "sma50 lib df = pad (rolling_mean lib 50 (closes df)) (length (closes df))"

definition delta :: "frame \<Rightarrow> rat list" where
  "delta df = np_diff (closes df)"

definition up :: "frame \<Rightarrow> rat list" where
  "up df = map (\<lambda>d. if 0 < d then d else 0) (delta df)"

definition down :: "frame \<Rightarrow> rat list" where
  "down df = map (\<lambda>d. if d < 0 then - d else 0) (delta df)"

definition roll_up :: "rolling_lib \<Rightarrow> frame \<Rightarrow> fl list" where
  "roll_up lib df = rolling_mean lib 14 (up df)"

definition roll_down :: "rolling_lib \<Rightarrow> frame \<Rightarrow> fl list" where
  "roll_down lib df = rolling_mean lib 14 (down df)"

definition rs :: "rolling_lib \<Rightarrow> frame \<Rightarrow> fl list" where
  "rs lib df = map (\<lambda>(u, d). fl_div u d) (zip (roll_up lib df) (roll_down lib df))"

definition rsi_unpadded :: "rolling_lib \<Rightarrow> frame \<Rightarrow> fl list" where
  "rsi_unpadded lib df =
     map (\<lambda>r. fl_sub (Fin 100) (fl_div (Fin 100) (fl_add (Fin 1) r))) (rs lib df)"

definition rsi :: "rolling_lib \<Rightarrow> frame \<Rightarrow> fl option list" where
  "rsi lib df = pad (rsi_unpadded lib df) (length (closes df))"

definition last_index :: "frame \<Rightarrow> int" where
  "last_index df = int (length (closes df)) - 1"

definition high20 :: "frame \<Rightarrow> fl option list" where
  "high20 df = pad (rolling_max 20 (highs df)) (length (closes df))"

definition avg_vol20 :: "rolling_lib \<Rightarrow> frame \<Rightarrow> fl option list" where
  "avg_vol20 lib df = pad (rolling_mean lib 20 (volumes df)) (length (closes df))"

text \<open>\<open>breakout = closes[i] > high20[i - 1] if i - 1 >= 0 else False\<close>\<close>

definition breakout :: "frame \<Rightarrow> error + bool" where
  "breakout df =
     (let i = last_index df in
      if 0 \<le> i - 1 then
        bnd (item (closes df) i) (\<lambda>c.
        bnd (item (high20 df) (i - 1)) (\<lambda>h. gt_cell (Fin c) h))
      else Inr False)"

text \<open>The three parenthesised conjuncts of \<open>pullback_bounce\<close> in src/scan.py.\<close>

definition pullback_bounce :: "rolling_lib \<Rightarrow> frame \<Rightarrow> error + bool" where
  "pullback_bounce lib df =
     (let i = last_index df in
      and_then
        (bnd (item (sma50 lib df) i) (\<lambda>s.
           if s \<noteq> None then bnd (item (closes df) i) (\<lambda>c. gt_cell (Fin c) s)
           else Inr False))
        (and_then
          (bnd (if 0 \<le> i - 1 then bnd (item (sma20 lib df) (i - 1)) (\<lambda>s. Inr (s \<noteq> None))
                else Inr False) (\<lambda>g.
             if g then
               bnd (item (lows df) (i - 1)) (\<lambda>l.
               bnd (item (sma20 lib df) (i - 1)) (\<lambda>s. lt_cell (Fin l) s))
             else Inr False))
          (if 0 \<le> i - 1 then
             bnd (item (closes df) i) (\<lambda>c.
             bnd (item (closes df) (i - 1)) (\<lambda>p. Inr (p < c)))
           else Inr False)))"

definition volume_spike :: "rolling_lib \<Rightarrow> frame \<Rightarrow> error + bool" where
  "volume_spike lib df =
     (let i = last_index df in
      bnd (item (avg_vol20 lib df) i) (\<lambda>a.
        if a \<noteq> None then
          bnd (item (volumes df) i) (\<lambda>v.
          bnd (mul_cell a (Fin (3 / 2))) (\<lambda>t. Inr (fl_gt (Fin v) t)))
        else Inr False))"

definition big_green :: "frame \<Rightarrow> error + bool" where
  "big_green df =
     (let i = last_index df in
      if 0 \<le> i - 1 then
        and_then
          (bnd (item (closes df) i) (\<lambda>c.
           bnd (item (opens df) i) (\<lambda>o'. Inr (o' < c))))
          (bnd (item (closes df) i) (\<lambda>c.
           bnd (item (highs df) (i - 1)) (\<lambda>h. Inr (h < c))))
      else Inr False)"

definition rsi_strength :: "rolling_lib \<Rightarrow> frame \<Rightarrow> error + bool" where
  "rsi_strength lib df =
     (let i = last_index df in
      and_then
        (bnd (item (rsi lib df) i) (\<lambda>r. Inr (r \<noteq> None)))
        (bnd (item (rsi lib df) i) (\<lambda>r. cell_gt r (Fin 55))))"

definition above_sma20 :: "rolling_lib \<Rightarrow> frame \<Rightarrow> error + bool" where
  "above_sma20 lib df =
     (let i = last_index df in
      and_then
        (bnd (item (sma20 lib df) i) (\<lambda>s. Inr (s \<noteq> None)))
        (bnd (item (closes df) i) (\<lambda>c.
         bnd (item (sma20 lib df) i) (\<lambda>s. gt_cell (Fin c) s))))"

text \<open>
  The four conditions are assigned one after the other, so each is evaluated (and may
  raise) before the conjunction is formed.
\<close>

definition bullish_momentum :: "rolling_lib \<Rightarrow> frame \<Rightarrow> error + bool" where
  "bullish_momentum lib df =
     bnd (volume_spike lib df) (\<lambda>vs.
     bnd (big_green df) (\<lambda>bg.
     bnd (rsi_strength lib df) (\<lambda>st.
     bnd (above_sma20 lib df) (\<lambda>ab. Inr (vs \<and> bg \<and> st \<and> ab)))))"

record technicals =
  sma20_of :: "fl option list"
  sma50_of :: "fl option list"
  valid :: bool
  setup_of :: string

definition choose_setup :: "bool \<Rightarrow> bool \<Rightarrow> bool \<Rightarrow> string" where
  "choose_setup b p m =
     (if b then ''Breakout setup''
      else if p then ''Pullback & bounce setup''
      else if m then ''Bullish momentum setup''
      else ''No clear setup'')"

definition calculate_technicals :: "rolling_lib \<Rightarrow> frame \<Rightarrow> error + technicals" where
  "calculate_technicals lib df =
     bnd (breakout df) (\<lambda>b.
     bnd (pullback_bounce lib df) (\<lambda>p.
     bnd (bullish_momentum lib df) (\<lambda>m.
       Inr \<lparr>sma20_of = sma20 lib df, sma50_of = sma50 lib df,
            valid = (b \<or> p \<or> m), setup_of = choose_setup b p m\<rparr>)))"

section \<open>The copy in src/api/scan\_disabled.py\<close>

text \<open>
  The second file computes the indicator arrays and \<open>breakout\<close>, \<open>rsi_strength\<close> and
  \<open>above_sma20\<close> with the same statements; it writes \<open>pullback\<close>, \<open>volume_spike\<close> and
  \<open>big_green\<close> as chains of \<open>and\<close>.
\<close>

definition pullback :: "rolling_lib \<Rightarrow> frame \<Rightarrow> error + bool" where
  "pullback lib df =
     (let i = last_index df in
      and_then (bnd (item (sma50 lib df) i) (\<lambda>s. Inr (s \<noteq> None)))
     (and_then (bnd (item (closes df) i) (\<lambda>c.
                bnd (item (sma50 lib df) i) (\<lambda>s. gt_cell (Fin c) s)))
     (and_then (Inr (0 \<le> i - 1))
     (and_then (bnd (item (sma20 lib df) (i - 1)) (\<lambda>s. Inr (s \<noteq> None)))
     (and_then (bnd (item (lows df) (i - 1)) (\<lambda>l.
                bnd (item (sma20 lib df) (i - 1)) (\<lambda>s. lt_cell (Fin l) s)))
               (bnd (item (closes df) i) (\<lambda>c.
                bnd (item (closes df) (i - 1)) (\<lambda>p. Inr (p < c)))))))))"

definition volume_spike_d :: "rolling_lib \<Rightarrow> frame \<Rightarrow> error + bool" where
  "volume_spike_d lib df =
     (let i = last_index df in
      and_then (bnd (item (avg_vol20 lib df) i) (\<lambda>a. Inr (a \<noteq> None)))
               (bnd (item (volumes df) i) (\<lambda>v.
                bnd (item (avg_vol20 lib df) i) (\<lambda>a.
                bnd (mul_cell a (Fin (3 / 2))) (\<lambda>t. Inr (fl_gt (Fin v) t))))))"

definition big_green_d :: "frame \<Rightarrow> error + bool" where
  "big_green_d df =
     (let i = last_index df in
      and_then (Inr (0 \<le> i - 1))
     (and_then (bnd (item (closes df) i) (\<lambda>c.
                bnd (item (opens df) i) (\<lambda>o'. Inr (o' < c))))
               (bnd (item (closes df) i) (\<lambda>c.
                bnd (item (highs df) (i - 1)) (\<lambda>h. Inr (h < c))))))"

definition bullish :: "rolling_lib \<Rightarrow> frame \<Rightarrow> error + bool" where
  "bullish lib df =
     bnd (volume_spike_d lib df) (\<lambda>vs.
     bnd (big_green_d df) (\<lambda>bg.
     bnd (rsi_strength lib df) (\<lambda>st.
     bnd (above_sma20 lib df) (\<lambda>ab. Inr (vs \<and> bg \<and> st \<and> ab)))))"

definition calculate_technicals_disabled :: "rolling_lib \<Rightarrow> frame \<Rightarrow> error + technicals" where
  "calculate_technicals_disabled lib df =
     bnd (breakout df) (\<lambda>b.
     bnd (pullback lib df) (\<lambda>p.
     bnd (bullish lib df) (\<lambda>m.
       Inr \<lparr>sma20_of = sma20 lib df, sma50_of = sma50 lib df,
            valid = (b \<or> p \<or> m), setup_of = choose_setup b p m\<rparr>)))"

section \<open>Example series\<close>

definition one_bar :: bar where
  "one_bar = \<lparr>Open = 10, High = 12, Low = 9, Close = 11, Volume = 500\<rparr>"

text \<open>
  The breakout scenario: 59 flat bars followed by one higher bar. Opens, lows and the
  volume are left open.
\<close>

definition breakout_scenario :: "rat \<Rightarrow> rat \<Rightarrow> int \<Rightarrow> rat \<Rightarrow> rat \<Rightarrow> frame" where
  "breakout_scenario o1 l1 v o2 l2 =
     replicate 59 \<lparr>Open = o1, High = 101, Low = l1, Close = 100, Volume = v\<rparr> @
     [\<lparr>Open = o2, High = 106, Low = l2, Close = 105, Volume = v\<rparr>]"

text \<open>
  A library for the examples: it returns the mean of the window rounded down to a
  multiple of \<open>2 ^ -64\<close>, which is the exact mean for the small integers and halves of
  the RSI examples.
\<close>

definition floor_lib :: rolling_lib where
  "floor_lib w xs i =
     F64_fin (\<lfloor>sum_list (trailing w xs i) / of_nat w * 2 ^ 64\<rfloor>) (- 64)"

text \<open>Series given by their closes, for the RSI examples.\<close>

definition bars_of_closes :: "rat list \<Rightarrow> frame" where
  "bars_of_closes cs = map (\<lambda>c. \<lparr>Open = c, High = c, Low = c, Close = c, Volume = 1000\<rparr>) cs"

definition alternating15 :: frame where
  "alternating15 = bars_of_closes [10, 11, 10, 11, 10, 11, 10, 11, 10, 11, 10, 11, 10, 11, 10]"

definition rising15 :: frame where
  "rising15 = bars_of_closes [1, 2, 3, 4, 5, 6, 7, 8, 9, 10, 11, 12, 13, 14, 15]"

text \<open>
  The value that \<open>rs\<close> and \<open>rsi\<close> compute at one index, from the two rolling means there:
  \<open>100 - 100 / (1 + u / d)\<close>.
\<close>

definition rsi_value :: "fl \<Rightarrow> fl \<Rightarrow> fl" where
  "rsi_value u d = fl_sub (Fin 100) (fl_div (Fin 100) (fl_add (Fin 1) (fl_div u d)))"

text \<open>Not negative: NaN, a finite value that is at least 0, or plus infinity.\<close>

fun nonneg_fl :: "fl \<Rightarrow> bool" where
  "nonneg_fl NaN = True"
| "nonneg_fl (Fin q) = (0 \<le> q)"
| "nonneg_fl PInf = True"
| "nonneg_fl NInf = False"


section \<open>Basic facts\<close>

lemma bnd_Inr [simp]: "bnd (Inr x) f = f x"
  by (simp add: bnd_def)

lemma bnd_Inl [simp]: "bnd (Inl e) f = Inl e"
  by (simp add: bnd_def)

lemma and_then_Inr [simp]: "and_then (Inr b) y = (if b then y else Inr False)"
  by (simp add: and_then_def)

lemma and_then_Inl [simp]: "and_then (Inl e) y = Inl e"
  by (simp add: and_then_def)

lemma length_rolling_mean [simp]: "length (rolling_mean lib w xs) = length xs"
  by (simp add: rolling_mean_def)

lemma length_rolling_max [simp]: "length (rolling_max w xs) = length xs"
  by (simp add: rolling_max_def)

lemma length_np_diff [simp]: "length (np_diff xs) = length xs - 1"
  by (simp add: np_diff_def)

lemma length_columns [simp]:
  "length (closes df) = length df" "length (highs df) = length df"
  "length (lows df) = length df" "length (opens df) = length df"
  "length (volumes df) = length df"
  by (simp_all add: closes_def highs_def lows_def opens_def volumes_def)

lemma pad_same_length: "length arr = n \<Longrightarrow> pad arr n = map Some arr"
  by (simp add: pad_def)

lemma pad_one_short: "Suc (length arr) = n \<Longrightarrow> pad arr n = None # map Some arr"
  by (auto simp add: pad_def)

lemma sma20_cells: "sma20 lib df = map Some (rolling_mean lib 20 (closes df))"
  by (simp add: sma20_def pad_same_length)

lemma sma50_cells: "sma50 lib df = map Some (rolling_mean lib 50 (closes df))"
  by (simp add: sma50_def pad_same_length)

lemma high20_cells: "high20 df = map Some (rolling_max 20 (highs df))"
  by (simp add: high20_def pad_same_length)

lemma avg_vol20_cells: "avg_vol20 lib df = map Some (rolling_mean lib 20 (volumes df))"
  by (simp add: avg_vol20_def pad_same_length)

lemma length_up_down [simp]:
  "length (up df) = length df - 1" "length (down df) = length df - 1"
  by (simp_all add: up_def down_def delta_def)

lemma length_rsi_unpadded [simp]: "length (rsi_unpadded lib df) = length df - 1"
  by (simp add: rsi_unpadded_def rs_def roll_up_def roll_down_def)

lemma rsi_cells: "df \<noteq> [] \<Longrightarrow> rsi lib df = None # map Some (rsi_unpadded lib df)"
  by (cases df) (simp_all add: rsi_def pad_one_short)

lemma rsi_empty: "rsi lib [] = []"
  by (simp add: rsi_def pad_def rsi_unpadded_def rs_def roll_up_def roll_down_def rolling_mean_def up_def down_def delta_def np_diff_def closes_def)

lemma length_cells [simp]:
  "length (sma20 lib df) = length df" "length (sma50 lib df) = length df"
  "length (high20 df) = length df" "length (avg_vol20 lib df) = length df"
  "length (rsi lib df) = length df"
  by (simp_all add: sma20_cells sma50_cells high20_cells avg_vol20_cells)
     (cases df; simp add: rsi_empty rsi_cells)

lemma item_in_range: "0 \<le> i \<Longrightarrow> i < int (length xs) \<Longrightarrow> item xs i = Inr (xs ! nat i)"
  by (simp add: item_def)

lemma item_empty: "item [] i = Inl IndexError"
  by (simp add: item_def)

lemma item_last: "length xs = Suc m \<Longrightarrow> item xs (int m) = Inr (xs ! m)"
  by (simp add: item_def)

lemma item_prev: "length xs = Suc m \<Longrightarrow> 0 < m \<Longrightarrow> item xs (int m - 1) = Inr (xs ! (m - 1))"
  by (simp add: item_def nat_diff_distrib')

lemma nth_rolling_mean:
  "i < length xs \<Longrightarrow>
   rolling_mean lib w xs ! i =
     (if Suc i < w then NaN else calc_mean (trailing w xs i) (fl_of (lib w xs i)))"
  by (simp add: rolling_mean_def)

lemma nth_rolling_max:
  "i < length xs \<Longrightarrow>
   rolling_max w xs ! i =
     (if Suc i < w then NaN else Fin (fold max (tl (trailing w xs i)) (hd (trailing w xs i))))"
  by (simp add: rolling_max_def)

lemma last_index_Suc: "length df = Suc m \<Longrightarrow> last_index df = int m"
  by (simp add: last_index_def)

lemma breakout_closed:
  assumes "length df = Suc m"
  shows "breakout df =
     Inr (0 < m \<and> fl_gt (Fin (closes df ! m)) (rolling_max 20 (highs df) ! (m - 1)))"
  using assms
  by (simp add: breakout_def last_index_Suc item_last item_prev gt_cell_def high20_cells Let_def)


lemma pullback_bounce_closed:
  assumes "length df = Suc m"
  shows "pullback_bounce lib df =
     Inr (fl_gt (Fin (closes df ! m)) (rolling_mean lib 50 (closes df) ! m) \<and> 0 < m \<and>
          fl_lt (Fin (lows df ! (m - 1))) (rolling_mean lib 20 (closes df) ! (m - 1)) \<and>
          closes df ! (m - 1) < closes df ! m)"
  using assms
  by (simp add: pullback_bounce_def last_index_Suc item_last item_prev gt_cell_def lt_cell_def
      sma20_cells sma50_cells Let_def)

lemma pullback_closed:
  assumes "length df = Suc m"
  shows "pullback lib df =
     Inr (fl_gt (Fin (closes df ! m)) (rolling_mean lib 50 (closes df) ! m) \<and> 0 < m \<and>
          fl_lt (Fin (lows df ! (m - 1))) (rolling_mean lib 20 (closes df) ! (m - 1)) \<and>
          closes df ! (m - 1) < closes df ! m)"
  using assms
  by (simp add: pullback_def last_index_Suc item_last item_prev gt_cell_def lt_cell_def
      sma20_cells sma50_cells Let_def)

lemma volume_spike_closed:
  assumes "length df = Suc m"
  shows "volume_spike lib df =
     Inr (fl_gt (Fin (volumes df ! m)) (fl_mul (rolling_mean lib 20 (volumes df) ! m) (Fin (3 / 2))))"
  using assms
  by (simp add: volume_spike_def last_index_Suc item_last mul_cell_def avg_vol20_cells Let_def)

lemma volume_spike_d_closed:
  assumes "length df = Suc m"
  shows "volume_spike_d lib df =
     Inr (fl_gt (Fin (volumes df ! m)) (fl_mul (rolling_mean lib 20 (volumes df) ! m) (Fin (3 / 2))))"
  using assms
  by (simp add: volume_spike_d_def last_index_Suc item_last mul_cell_def avg_vol20_cells Let_def)

lemma big_green_closed:
  assumes "length df = Suc m"
  shows "big_green df =
     Inr (0 < m \<and> opens df ! m < closes df ! m \<and> highs df ! (m - 1) < closes df ! m)"
  using assms
  by (simp add: big_green_def last_index_Suc item_last item_prev Let_def)

lemma big_green_d_closed:
  assumes "length df = Suc m"
  shows "big_green_d df =
     Inr (0 < m \<and> opens df ! m < closes df ! m \<and> highs df ! (m - 1) < closes df ! m)"
  using assms
  by (simp add: big_green_d_def last_index_Suc item_last item_prev Let_def)

lemma rsi_strength_closed:
  assumes "length df = Suc m"
  shows "rsi_strength lib df = Inr (0 < m \<and> fl_gt (rsi_unpadded lib df ! (m - 1)) (Fin 55))"
proof -
  from assms have ne: "df \<noteq> []" by auto
  from assms have it: "item (rsi lib df) (int m) = Inr (rsi lib df ! m)"
    by (simp add: item_last)
  from assms have "m - 1 < length (rsi_unpadded lib df) \<or> m = 0" by auto
  then have cell: "rsi lib df ! m = (if m = 0 then None else Some (rsi_unpadded lib df ! (m - 1)))"
    by (cases m) (simp_all add: rsi_cells [OF ne])
  show ?thesis
    by (simp add: rsi_strength_def last_index_Suc [OF assms] it cell cell_gt_def Let_def)
qed

lemma above_sma20_closed:
  assumes "length df = Suc m"
  shows "above_sma20 lib df = Inr (fl_gt (Fin (closes df ! m)) (rolling_mean lib 20 (closes df) ! m))"
  using assms
  by (simp add: above_sma20_def last_index_Suc item_last gt_cell_def sma20_cells Let_def)

lemma bullish_momentum_closed:
  assumes "length df = Suc m"
  shows "bullish_momentum lib df =
     Inr (fl_gt (Fin (volumes df ! m)) (fl_mul (rolling_mean lib 20 (volumes df) ! m) (Fin (3 / 2))) \<and>
          (0 < m \<and> opens df ! m < closes df ! m \<and> highs df ! (m - 1) < closes df ! m) \<and>
          (0 < m \<and> fl_gt (rsi_unpadded lib df ! (m - 1)) (Fin 55)) \<and>
          fl_gt (Fin (closes df ! m)) (rolling_mean lib 20 (closes df) ! m))"
  by (simp add: bullish_momentum_def volume_spike_closed [OF assms] big_green_closed [OF assms]
      rsi_strength_closed [OF assms] above_sma20_closed [OF assms])

lemma bullish_closed:
  assumes "length df = Suc m"
  shows "bullish lib df = bullish_momentum lib df"
  by (simp add: bullish_momentum_def bullish_def volume_spike_closed [OF assms] big_green_closed [OF assms]
       volume_spike_d_closed [OF assms] big_green_d_closed [OF assms])

lemma breakout_empty: "breakout [] = Inr False"
  by (simp add: breakout_def last_index_def closes_def)

lemma pullback_bounce_empty: "pullback_bounce lib [] = Inl IndexError"
  by (simp add: pullback_bounce_def last_index_def closes_def sma50_def pad_def rolling_mean_def item_empty)

lemma pullback_empty: "pullback lib [] = Inl IndexError"
  by (simp add: pullback_def last_index_def closes_def sma50_def pad_def rolling_mean_def item_empty)

lemma calc_empty: "calculate_technicals lib [] = Inl IndexError"
  by (simp add: calculate_technicals_def breakout_empty pullback_bounce_empty)

lemma calc_disabled_empty: "calculate_technicals_disabled lib [] = Inl IndexError"
  by (simp add: calculate_technicals_disabled_def breakout_empty pullback_empty)

lemma calc_same: "calculate_technicals_disabled lib df = calculate_technicals lib df"
proof (cases df)
  case Nil
  then show ?thesis by (simp add: calc_empty calc_disabled_empty)
next
  case (Cons b bs)
  then have len: "length df = Suc (length bs)" by simp
  show ?thesis
    by (simp add: calculate_technicals_def calculate_technicals_disabled_def
        bullish_closed [OF len] pullback_closed [OF len] pullback_bounce_closed [OF len])
qed

lemma calc_nonempty:
  assumes "length df = Suc m"
  shows "\<exists>b p mo. breakout df = Inr b \<and> pullback_bounce lib df = Inr p \<and>
           bullish_momentum lib df = Inr mo \<and>
           calculate_technicals lib df =
             Inr \<lparr>sma20_of = sma20 lib df, sma50_of = sma50 lib df,
                  valid = (b \<or> p \<or> mo), setup_of = choose_setup b p mo\<rparr>"
  by (simp add: calculate_technicals_def breakout_closed [OF assms]
      pullback_bounce_closed [OF assms] bullish_momentum_closed [OF assms])

section \<open>Errors\<close>

text \<open>
  Claim C7. The function raises exactly on the empty series: with zero rows the read
  \<open>sma50[i]\<close> at \<open>i = -1\<close> raises IndexError, and for every series with at least one row
  the function returns its result dictionary.
\<close>

theorem error_exactly_on_empty:
  "calculate_technicals lib [] = Inl IndexError \<and>
   ((\<exists>r. calculate_technicals lib df = Inr r) \<longleftrightarrow> df \<noteq> [])"
proof (cases df)
  case Nil
  then show ?thesis by (simp add: calc_empty)
next
  case (Cons b bs)
  then have len: "length df = Suc (length bs)" by simp
  from calc_nonempty [where lib = lib, OF len] have "\<exists>r. calculate_technicals lib df = Inr r" by blast
  with Cons show ?thesis by (simp add: calc_empty)
qed

theorem error_exactly_on_empty_witness:
  "calculate_technicals floor_lib [] = Inl IndexError \<and> (\<exists>r. calculate_technicals floor_lib [one_bar] = Inr r)"
  using error_exactly_on_empty [where df = "[one_bar]" and lib = floor_lib] by simp

text \<open>
  Claim C8. A series of exactly one bar returns, without raising, the result with
  \<open>valid\<close> false and the label "No clear setup"; both averages hold one NaN.
\<close>

theorem single_bar_no_setup:
  "calculate_technicals lib [b] =
     Inr \<lparr>sma20_of = [Some NaN], sma50_of = [Some NaN], valid = False,
          setup_of = ''No clear setup''\<rparr>"
proof -
  have len: "length [b] = Suc 0" by simp
  have s: "sma20 lib [b] = [Some NaN]" "sma50 lib [b] = [Some NaN]"
    by (simp_all add: sma20_cells sma50_cells rolling_mean_def closes_def)
  have v: "rolling_mean lib 20 (volumes [b]) ! 0 = NaN" "rolling_mean lib 50 (closes [b]) ! 0 = NaN"
    by (simp_all add: rolling_mean_def volumes_def closes_def)
  show ?thesis
    by (simp add: calculate_technicals_def breakout_closed [OF len]
        pullback_bounce_closed [OF len] bullish_momentum_closed [OF len] s v choose_setup_def)
qed

section \<open>The two copies\<close>

text \<open>
  Claim C9. \<open>calculate_technicals\<close> of src/scan.py and of src/api/scan\_disabled.py return
  the same result on every series: the same arrays, flag and label, and the same
  IndexError on the empty series.
\<close>

theorem calculate_technicals_copies_equal:
  "calculate_technicals lib df = calculate_technicals_disabled lib df"
  by (simp add: calc_same)

lemma funpow_max_same: "(max x ^^ k) (x::rat) = x"
  by (induction k) simp_all

lemma high20_scenario: "high20 (breakout_scenario o1 l1 v o2 l2) ! 58 = Some (Fin 101)"
proof -
  have "trailing 20 (highs (breakout_scenario o1 l1 v o2 l2)) 58 = replicate (Suc 19) 101"
    by (simp add: trailing_def highs_def breakout_scenario_def)
  then show ?thesis
    by (simp add: high20_cells nth_rolling_max breakout_scenario_def funpow_max_same)
qed


lemma rolling_max_cases:
  "i < length xs \<Longrightarrow> rolling_max w xs ! i = NaN \<or> (\<exists>h. rolling_max w xs ! i = Fin h)"
  by (simp add: nth_rolling_max)

lemma breakout_all:
  "breakout df =
     Inr (2 \<le> length df \<and>
          (\<exists>h. high20 df ! (length df - 2) = Some (Fin h) \<and> h < Close (df ! (length df - 1))))"
proof (cases df)
  case Nil
  then show ?thesis by (simp add: breakout_empty)
next
  case (Cons b bs)
  then have len: "length df = Suc (length bs)" by simp
  show ?thesis
  proof (cases "length bs")
    case 0
    with len show ?thesis by (simp add: breakout_closed [OF len])
  next
    case (Suc k)
    with len have k: "k < length (highs df)" "Suc k < length df" by simp_all
    have c: "closes df ! Suc k = Close (df ! Suc k)"
      using k by (simp add: closes_def)
    from rolling_max_cases [OF k(1), of 20] show ?thesis
      using Suc len k c by (auto simp add: breakout_closed [OF len] high20_cells)
  qed
qed

section \<open>The classifier\<close>

text \<open>
  Claim C3. On the last bar \<open>i\<close> the breakout condition holds exactly when there is a
  prior bar, the 20-bar rolling high at \<open>i - 1\<close> is present, and \<open>close[i]\<close> is strictly
  above it; it is false with fewer than two bars and whenever \<open>high20[i - 1]\<close> is absent.
  In the scenario of 59 bars with close 100 and high 101 followed by a bar with close 105
  and high 106 (whatever the opens, lows and the volume), \<open>high20[58]\<close> is 101, the
  breakout condition holds and the label is "Breakout setup".
\<close>

theorem breakout_rule:
  "breakout df =
     Inr (2 \<le> length df \<and>
          (\<exists>h. high20 df ! (length df - 2) = Some (Fin h) \<and> h < Close (df ! (length df - 1)))) \<and>
   (length df < 2 \<longrightarrow> breakout df = Inr False) \<and>
   (absent (high20 df ! (length df - 2)) \<longrightarrow> breakout df = Inr False) \<and>
   high20 (breakout_scenario o1 l1 v o2 l2) ! 58 = Some (Fin 101) \<and>
   breakout (breakout_scenario o1 l1 v o2 l2) = Inr True \<and>
   (\<exists>r. calculate_technicals lib (breakout_scenario o1 l1 v o2 l2) = Inr r \<and> valid r \<and>
        setup_of r = ''Breakout setup'')"
proof -
  let ?s = "breakout_scenario o1 l1 v o2 l2"
  have len: "length ?s = Suc 59" by (simp add: breakout_scenario_def)
  have last: "Close (?s ! 59) = 105"
    by (simp add: breakout_scenario_def nth_append)
  have b: "breakout ?s = Inr True"
    using high20_scenario [of o1 l1 v o2 l2] last len by (simp add: breakout_all)
  from calc_nonempty [where lib = lib, OF len] b
  have r: "\<exists>r. calculate_technicals lib ?s = Inr r \<and> valid r \<and> setup_of r = ''Breakout setup''"
    by (auto simp add: choose_setup_def)
  have a: "absent (high20 df ! (length df - 2)) \<longrightarrow> breakout df = Inr False"
    by (auto simp add: breakout_all)
  show ?thesis using b r a high20_scenario [of o1 l1 v o2 l2] by (simp add: breakout_all)
qed

theorem breakout_rule_witness:
  "breakout [one_bar] = Inr False \<and>
   absent (high20 (replicate 5 one_bar) ! 3) \<and> breakout (replicate 5 one_bar) = Inr False \<and>
   breakout (breakout_scenario 100 99 1000 100 100) = Inr True"
proof -
  have a: "absent (high20 (replicate 5 one_bar) ! (length (replicate 5 one_bar) - 2))"
    by code_simp
  have l: "length [one_bar] < 2" by simp
  from l breakout_rule [of "[one_bar]" 100 99 1000 100 100]
  have 1: "breakout [one_bar] = Inr False" by blast
  from a breakout_rule [of "replicate 5 one_bar" 100 99 1000 100 100]
  have 2: "breakout (replicate 5 one_bar) = Inr False" by blast
  from breakout_rule [of "[]" 100 99 1000 100 100]
  have 3: "breakout (breakout_scenario 100 99 1000 100 100) = Inr True" by blast
  from a have a': "absent (high20 (replicate 5 one_bar) ! 3)" by simp
  from 1 2 3 a' show ?thesis by blast
qed

text \<open>
  Claim C2. For every non-empty series the label follows the fixed priority breakout,
  pullback and bounce, bullish momentum, none, over the three conditions evaluated on the
  last bar, and \<open>valid\<close> is true exactly when the label is not "No clear setup". When
  the breakout and the pullback condition both hold, the label is "Breakout setup".
\<close>

theorem label_priority:
  assumes "df \<noteq> []"
  shows "\<exists>b p m r. breakout df = Inr b \<and> pullback_bounce lib df = Inr p \<and>
           bullish_momentum lib df = Inr m \<and> calculate_technicals lib df = Inr r \<and>
           setup_of r =
             (if b then ''Breakout setup''
              else if p then ''Pullback & bounce setup''
              else if m then ''Bullish momentum setup''
              else ''No clear setup'') \<and>
           valid r = (setup_of r \<noteq> ''No clear setup'') \<and>
           (b \<and> p \<longrightarrow> setup_of r = ''Breakout setup'' \<and> setup_of r \<noteq> ''Pullback & bounce setup'')"
proof -
  from assms obtain m where len: "length df = Suc m" by (cases df) auto
  from calc_nonempty [where lib = lib, OF len] show ?thesis
    by (auto simp add: choose_setup_def)
qed

theorem label_priority_witness:
  "breakout (breakout_scenario 100 99 1000 100 100) = Inr True \<and>
   pullback_bounce floor_lib (breakout_scenario 100 99 1000 100 100) = Inr True \<and>
   (\<exists>r. calculate_technicals floor_lib (breakout_scenario 100 99 1000 100 100) = Inr r \<and>
        setup_of r = ''Breakout setup'' \<and> valid r)"
proof -
  have ne: "breakout_scenario 100 99 1000 100 100 \<noteq> []"
    by (simp add: breakout_scenario_def)
  have b: "breakout (breakout_scenario 100 99 1000 100 100) = Inr True" by code_simp
  have p: "pullback_bounce floor_lib (breakout_scenario 100 99 1000 100 100) = Inr True" by code_simp
  from label_priority [where lib = floor_lib, OF ne] b p show ?thesis by auto
qed


text \<open>
  Claim C10. For every non-empty series with fewer than 20 bars the three conditions are
  false, and both copies of the function return \<open>valid\<close> false with the label
  "No clear setup": \<open>sma50[i]\<close> and \<open>avg_vol20[i]\<close> are absent on the last bar, and so is
  \<open>high20[i - 1]\<close> when there is a prior bar.
\<close>

theorem short_series_no_setup:
  assumes "df \<noteq> []" and "length df < 20"
  shows "breakout df = Inr False \<and> pullback_bounce lib df = Inr False \<and>
         bullish_momentum lib df = Inr False \<and>
         calculate_technicals lib df =
           Inr \<lparr>sma20_of = sma20 lib df, sma50_of = sma50 lib df, valid = False,
                setup_of = ''No clear setup''\<rparr> \<and>
         calculate_technicals_disabled lib df =
           Inr \<lparr>sma20_of = sma20 lib df, sma50_of = sma50 lib df, valid = False,
                setup_of = ''No clear setup''\<rparr> \<and>
         absent (sma50 lib df ! (length df - 1)) \<and>
         absent (avg_vol20 lib df ! (length df - 1)) \<and>
         (2 \<le> length df \<longrightarrow> absent (high20 df ! (length df - 2)))"
proof -
  from assms obtain m where len: "length df = Suc m" and m: "m < 19"
    by (cases df) auto
  have s50: "rolling_mean lib 50 (closes df) ! m = NaN"
    using len m by (simp add: nth_rolling_mean)
  have v20: "rolling_mean lib 20 (volumes df) ! m = NaN"
    using len m by (simp add: nth_rolling_mean)
  have h20: "0 < m \<Longrightarrow> rolling_max 20 (highs df) ! (m - 1) = NaN"
    using len m by (simp add: nth_rolling_max)
  have b: "breakout df = Inr False"
    using h20 by (cases "0 < m") (simp_all add: breakout_closed [OF len])
  have p: "pullback_bounce lib df = Inr False"
    by (simp add: pullback_bounce_closed [OF len] s50)
  have bm: "bullish_momentum lib df = Inr False"
    by (simp add: bullish_momentum_closed [OF len] v20)
  have c: "calculate_technicals lib df =
           Inr \<lparr>sma20_of = sma20 lib df, sma50_of = sma50 lib df, valid = False,
                setup_of = ''No clear setup''\<rparr>"
    by (simp add: calculate_technicals_def b p bm choose_setup_def)
  have a50: "absent (sma50 lib df ! (length df - 1))"
    using len s50 by (simp add: sma50_cells)
  have av: "absent (avg_vol20 lib df ! (length df - 1))"
    using len v20 by (simp add: avg_vol20_cells)
  have ah: "2 \<le> length df \<longrightarrow> absent (high20 df ! (length df - 2))"
    using len h20 by (auto simp add: high20_cells)
  from b p bm c a50 av ah show ?thesis by (simp add: calc_same)
qed

theorem short_series_no_setup_witness:
  "breakout (replicate 5 one_bar) = Inr False \<and>
   pullback_bounce floor_lib (replicate 5 one_bar) = Inr False \<and>
   bullish_momentum floor_lib (replicate 5 one_bar) = Inr False \<and>
   (\<exists>r. calculate_technicals floor_lib (replicate 5 one_bar) = Inr r \<and> \<not> valid r \<and>
        setup_of r = ''No clear setup'') \<and>
   absent (high20 (replicate 5 one_bar) ! 3)"
proof -
  have ne: "replicate 5 one_bar \<noteq> []" by simp
  have sh: "length (replicate 5 one_bar) < 20" by simp
  have l2: "2 \<le> length (replicate 5 one_bar)" by simp
  from short_series_no_setup [where lib = floor_lib, OF ne sh] l2 show ?thesis by simp
qed

section \<open>The rolling windows\<close>







lemma trailing_map: "trailing w (map f xs) i = map f (trailing w xs i)"
  by (simp add: trailing_def take_map drop_map)









section \<open>The relative strength index\<close>

lemma rsi_value_NaN: "rsi_value NaN d = NaN" "rsi_value (Fin g) NaN = NaN"
  "rsi_value PInf NaN = NaN"
  by (simp_all add: rsi_value_def fl_sub_def)

lemma rsi_value_Fin:
  assumes "0 \<le> g" and "0 \<le> l"
  shows "rsi_value (Fin g) (Fin l) =
     (if l = 0 then (if g = 0 then NaN else Fin 100) else Fin (100 - 100 / (1 + g / l)))"
proof (cases "l = 0")
  case True
  with assms show ?thesis by (simp add: rsi_value_def fl_sub_def)
next
  case False
  with assms have "0 \<le> g / l" by simp
  then have "1 + g / l \<noteq> 0" by linarith
  with False show ?thesis by (simp add: rsi_value_def fl_sub_def)
qed

lemma rsi_value_inf:
  "rsi_value (Fin g) PInf = Fin 0" "0 \<le> l \<Longrightarrow> rsi_value PInf (Fin l) = Fin 100"
  "rsi_value PInf PInf = NaN"
  by (simp_all add: rsi_value_def fl_sub_def)

lemma rsi_value_range:
  assumes "0 \<le> g" and "0 < l"
  shows "0 \<le> 100 - 100 / (1 + g / l) \<and> 100 - 100 / (1 + g / l) \<le> (100::rat)"
proof -
  have q: "0 \<le> g / l" using assms by simp
  then have p: "0 < 1 + g / l" by linarith
  have "100 \<le> 100 * (1 + g / l)" using q by simp
  then have "100 / (1 + g / l) \<le> 100" using p by (simp add: pos_divide_le_eq)
  moreover have "0 \<le> 100 / (1 + g / l)" using p by simp
  ultimately show ?thesis by simp
qed

lemma rsi_value_absent_iff:
  assumes "nonneg_fl u" and "nonneg_fl d"
  shows "rsi_value u d = NaN \<longleftrightarrow>
     u = NaN \<or> d = NaN \<or> (u = Fin 0 \<and> d = Fin 0) \<or> (u = PInf \<and> d = PInf)"
proof (cases u)
  case NaN
  then show ?thesis by (simp add: rsi_value_NaN)
next
  case (Fin g)
  with assms have g: "0 \<le> g" by simp
  show ?thesis
  proof (cases d)
    case (Fin l)
    with assms have l: "0 \<le> l" by simp
    from Fin \<open>u = Fin g\<close> show ?thesis by (simp add: rsi_value_Fin [OF g l])
  qed (use Fin assms in \<open>simp_all add: rsi_value_NaN rsi_value_inf\<close>)
next
  case PInf
  show ?thesis
  proof (cases d)
    case (Fin l)
    with assms have l: "0 \<le> l" by simp
    from Fin PInf show ?thesis by (simp add: rsi_value_inf(2) [OF l])
  qed (use PInf assms in \<open>simp_all add: rsi_value_NaN rsi_value_inf\<close>)
next
  case NInf
  with assms show ?thesis by simp
qed

lemma rsi_value_bounded:
  assumes "nonneg_fl u" and "nonneg_fl d" and "rsi_value u d \<noteq> NaN"
  shows "\<exists>v. rsi_value u d = Fin v \<and> 0 \<le> v \<and> v \<le> 100"
proof (cases u)
  case NaN
  with assms show ?thesis by (simp add: rsi_value_NaN)
next
  case (Fin g)
  with assms have g: "0 \<le> g" by simp
  show ?thesis
  proof (cases d)
    case NaN
    with assms \<open>u = Fin g\<close> show ?thesis by (simp add: rsi_value_NaN)
  next
    case (Fin l)
    with assms have l: "0 \<le> l" by simp
    have v: "rsi_value u d =
        (if l = 0 then (if g = 0 then NaN else Fin 100) else Fin (100 - 100 / (1 + g / l)))"
      unfolding Fin \<open>u = Fin g\<close> by (rule rsi_value_Fin [OF g l])
    show ?thesis
    proof (cases "l = 0")
      case True
      with assms(3) v show ?thesis by (cases "g = 0") simp_all
    next
      case False
      with l have "0 < l" by simp
      from rsi_value_range [OF g this] v False show ?thesis by simp
    qed
  next
    case PInf
    with \<open>u = Fin g\<close> show ?thesis by (simp add: rsi_value_inf)
  next
    case NInf
    with assms show ?thesis by simp
  qed
next
  case PInf
  show ?thesis
  proof (cases d)
    case (Fin l)
    with assms have l: "0 \<le> l" by simp
    from Fin PInf show ?thesis by (simp add: rsi_value_inf(2) [OF l])
  qed (use PInf assms in \<open>simp_all add: rsi_value_NaN rsi_value_inf\<close>)
next
  case NInf
  with assms show ?thesis by simp
qed

lemma nth_rsi_unpadded:
  assumes "k < length df - 1"
  shows "rsi_unpadded lib df ! k = rsi_value (roll_up lib df ! k) (roll_down lib df ! k)"
  using assms by (simp add: rsi_unpadded_def rs_def rsi_value_def roll_up_def roll_down_def)

lemma nth_rsi:
  assumes "i < length df"
  shows "rsi lib df ! i =
     (if i = 0 then None
      else Some (rsi_value (roll_up lib df ! (i - 1)) (roll_down lib df ! (i - 1))))"
proof -
  from assms have ne: "df \<noteq> []" by auto
  show ?thesis using assms
    by (cases i) (simp_all add: rsi_cells [OF ne] nth_rsi_unpadded)
qed

lemma trailing_subset: "set (trailing w xs i) \<subseteq> set xs"
proof -
  have "set (take w (drop (Suc i - w) xs)) \<subseteq> set (drop (Suc i - w) xs)"
    by (rule set_take_subset)
  also have "\<dots> \<subseteq> set xs" by (rule set_drop_subset)
  finally show ?thesis by (simp add: trailing_def)
qed

lemma calc_mean_nonneg:
  assumes "list_all (\<lambda>x. 0 \<le> x) win"
  shows "nonneg_fl (calc_mean win r)"
  using assms by (cases r) (simp_all add: calc_mean_def fl_lt_def)

lemma rolling_mean_nonneg:
  assumes "\<forall>x \<in> set xs. 0 \<le> x" and "k < length xs"
  shows "nonneg_fl (rolling_mean lib w xs ! k)"
proof (cases "Suc k < w")
  case True
  with assms(2) show ?thesis by (simp add: nth_rolling_mean)
next
  case False
  have "list_all (\<lambda>x. 0 \<le> x) (trailing w xs k)"
    using assms(1) trailing_subset [of w xs k] by (auto simp add: list_all_iff)
  from calc_mean_nonneg [OF this] False assms(2) show ?thesis
    by (simp add: nth_rolling_mean)
qed

lemma roll_nonneg:
  assumes "k < length df - 1"
  shows "nonneg_fl (roll_up lib df ! k)" and "nonneg_fl (roll_down lib df ! k)"
proof -
  have u: "\<forall>x \<in> set (up df). 0 \<le> x" by (auto simp add: up_def)
  have d: "\<forall>x \<in> set (down df). 0 \<le> x" by (auto simp add: down_def)
  from assms show "nonneg_fl (roll_up lib df ! k)"
    unfolding roll_up_def by (intro rolling_mean_nonneg [OF u]) simp
  from assms show "nonneg_fl (roll_down lib df ! k)"
    unfolding roll_down_def by (intro rolling_mean_nonneg [OF d]) simp
qed

lemma roll_early:
  assumes "k < length df - 1" and "Suc k < 14"
  shows "roll_up lib df ! k = NaN" and "roll_down lib df ! k = NaN"
  using assms by (simp_all add: roll_up_def roll_down_def nth_rolling_mean)

lemma absent_Some: "absent (Some x) \<longleftrightarrow> x = NaN"
  by (cases x) simp_all

text \<open>
  Claim C1, as amended. \<open>rsi[i]\<close> is absent at every index \<open>i < 14\<close>: index 0 holds the
  \<open>None\<close> pad and indices 1 to 13 hold the NaN of the 14-period window over the deltas.
  From index 14 on it is absent exactly when one of the two 14-period averages that
  pandas returns at \<open>i\<close> is itself NaN (as after an overflow of its running sum), or both
  are zero (0/0), or both are infinite. So the first present value can appear at index 14.
\<close>

theorem rsi_absence:
  assumes "i < length df"
  shows "absent (rsi lib df ! i) \<longleftrightarrow>
           i < 14 \<or> roll_up lib df ! (i - 1) = NaN \<or> roll_down lib df ! (i - 1) = NaN \<or>
           (roll_up lib df ! (i - 1) = Fin 0 \<and> roll_down lib df ! (i - 1) = Fin 0) \<or>
           (roll_up lib df ! (i - 1) = PInf \<and> roll_down lib df ! (i - 1) = PInf)"
proof (cases "i = 0")
  case True
  with assms show ?thesis by (simp add: nth_rsi)
next
  case False
  with assms have k: "i - 1 < length df - 1" by auto
  define u where "u = roll_up lib df ! (i - 1)"
  define d where "d = roll_down lib df ! (i - 1)"
  have n: "nonneg_fl u" "nonneg_fl d"
    using roll_nonneg [OF k, of lib] by (simp_all add: u_def d_def)
  have c: "rsi lib df ! i = Some (rsi_value u d)"
    using assms False by (simp add: nth_rsi u_def d_def)
  have e: "i < 14 \<Longrightarrow> u = NaN"
    using roll_early(1) [OF k, of lib] False by (simp add: u_def)
  from c e show ?thesis
    unfolding u_def [symmetric] d_def [symmetric]
    by (auto simp add: absent_Some rsi_value_absent_iff [OF n])
qed

theorem rsi_absence_witness:
  "14 < length alternating15 \<and> \<not> absent (rsi floor_lib alternating15 ! 14) \<and>
   absent (rsi floor_lib alternating15 ! 13) \<and>
   15 < length (replicate 16 one_bar) \<and> absent (rsi floor_lib (replicate 16 one_bar) ! 15)"
proof -
  have l: "14 < length alternating15" "13 < length alternating15"
    "15 < length (replicate 16 one_bar)"
    by (simp_all add: alternating15_def bars_of_closes_def)
  have u: "roll_up floor_lib alternating15 ! (14 - 1) = Fin (1 / 2)"
    "roll_down floor_lib alternating15 ! (14 - 1) = Fin (1 / 2)" by code_simp+
  have f: "roll_up floor_lib (replicate 16 one_bar) ! (15 - 1) = Fin 0"
    "roll_down floor_lib (replicate 16 one_bar) ! (15 - 1) = Fin 0" by code_simp+
  from rsi_absence [where lib = floor_lib, OF l(1)] u
  have 1: "\<not> absent (rsi floor_lib alternating15 ! 14)" by simp
  from rsi_absence [where lib = floor_lib, OF l(2)]
  have 2: "absent (rsi floor_lib alternating15 ! 13)" by simp
  from rsi_absence [where lib = floor_lib, OF l(3)] f
  have 3: "absent (rsi floor_lib (replicate 16 one_bar) ! 15)" by simp
  from l 1 2 3 show ?thesis by simp
qed

text \<open>
  Claim C1 as stated (absent exactly when \<open>i < 15\<close>) fails: on fifteen closes alternating
  between 10 and 11 both averages at index 14 are 1/2, computed without rounding, and
  the entry there is present, with value 50.
\<close>

theorem rsi_first_present_counterexample:
  "\<not> (absent (rsi floor_lib alternating15 ! 14) \<longleftrightarrow> (14::nat) < 15)"
proof -
  have "rsi floor_lib alternating15 ! 14 = Some (Fin 50)" by code_simp
  then show ?thesis by simp
qed

text \<open>
  Claim C5. At every index \<open>i \<ge> 14\<close> where the 14-period average loss is zero and the
  14-period average gain is strictly positive, \<open>rsi[i]\<close> is present and equals 100: the
  division gives infinity, \<open>100 / (1 + inf)\<close> is 0.
\<close>

theorem rsi_saturates:
  assumes "i < length df" and "14 \<le> i"
    and "roll_down lib df ! (i - 1) = Fin 0" and "roll_up lib df ! (i - 1) = Fin g"
    and "0 < g"
  shows "rsi lib df ! i = Some (Fin 100) \<and> \<not> absent (rsi lib df ! i)"
proof -
  have z: "(0::rat) \<le> 0" by simp
  from assms(5) have g: "0 \<le> g" by simp
  have "rsi lib df ! i = Some (rsi_value (Fin g) (Fin 0))"
    using assms by (simp add: nth_rsi)
  with assms(5) show ?thesis by (simp add: rsi_value_Fin [OF g z])
qed

theorem rsi_saturates_witness:
  "14 < length rising15 \<and> roll_down floor_lib rising15 ! 13 = Fin 0 \<and>
   roll_up floor_lib rising15 ! 13 = Fin 1 \<and> rsi floor_lib rising15 ! 14 = Some (Fin 100)"
proof -
  have l: "14 < length rising15" by (simp add: rising15_def bars_of_closes_def)
  have i: "(14::nat) \<le> 14" by simp
  have d: "roll_down floor_lib rising15 ! (14 - 1) = Fin 0" by code_simp
  have u: "roll_up floor_lib rising15 ! (14 - 1) = Fin 1" by code_simp
  have p: "(0::rat) < 1" by simp
  from rsi_saturates [where lib = floor_lib, OF l i d u p] l d u show ?thesis by simp
qed

text \<open>
  Claim C6. Every present \<open>rsi[i]\<close> is a finite value between 0 and 100 inclusive.
\<close>

theorem rsi_bounds:
  assumes "i < length df" and "\<not> absent (rsi lib df ! i)"
  shows "\<exists>v. rsi lib df ! i = Some (Fin v) \<and> 0 \<le> v \<and> v \<le> 100"
proof -
  from assms have i0: "i \<noteq> 0" by (cases "i = 0") (simp_all add: nth_rsi)
  with assms have k: "i - 1 < length df - 1" by auto
  define u where "u = roll_up lib df ! (i - 1)"
  define d where "d = roll_down lib df ! (i - 1)"
  have n: "nonneg_fl u" "nonneg_fl d"
    using roll_nonneg [OF k, of lib] by (simp_all add: u_def d_def)
  have c: "rsi lib df ! i = Some (rsi_value u d)"
    using assms i0 by (simp add: nth_rsi u_def d_def)
  with assms(2) have "rsi_value u d \<noteq> NaN" by (simp add: absent_Some)
  from rsi_value_bounded [OF n this] c show ?thesis by simp
qed

theorem rsi_bounds_witness:
  "14 < length alternating15 \<and> \<not> absent (rsi floor_lib alternating15 ! 14) \<and>
   rsi floor_lib alternating15 ! 14 = Some (Fin 50)"
proof -
  have l: "14 < length alternating15" by (simp add: alternating15_def bars_of_closes_def)
  have v: "rsi floor_lib alternating15 ! 14 = Some (Fin 50)" by code_simp
  then have a: "\<not> absent (rsi floor_lib alternating15 ! 14)" by simp
  from rsi_bounds [where lib = floor_lib, OF l a] l a v show ?thesis by simp
qed

end
